theory Spec2Isabelle
  imports Main
begin

section \<open>Data model\<close>

text \<open>
  The external types the program handles, reduced to what \<^verbatim>\<open>gdax-market-indexer.go\<close>
  touches. A \<^verbatim>\<open>gdax.Message\<close> has a type tag, a list of channels, a timestamp and scalar
  payload fields. The declaration of \<^verbatim>\<open>gdax.Message\<close> is not part of this program, so the
  scalar payload fields it declares are a type parameter \<open>'k\<close>; their zero value is the
  empty string. The timestamp is an instant counted from Go's zero time, so that
  \<^verbatim>\<open>IsZero\<close> is the test for 0.
\<close>

record MessageChannel =
  Name :: string
  ProductIds :: "string list"

record 'k Message =
  Type :: string
  Channels :: "MessageChannel list"
  Time :: int
  Other :: "'k \<Rightarrow> string"

text \<open>\<^verbatim>\<open>gdax.Message{}\<close>: every field has its zero value.\<close>

definition emptyMessage :: "'k Message" where
  "emptyMessage = \<lparr>Type = [], Channels = [], Time = 0, Other = (\<lambda>_. [])\<rparr>"

text \<open>\<^verbatim>\<open>message.Time.Time().IsZero()\<close>\<close>

definition IsZero :: "'k Message \<Rightarrow> bool" where
  "IsZero m = (Time m = 0)"

text \<open>
  A frame is what the decoder takes from one JSON object off the wire. A declared field
  is either present with a value or missing; a key of the object that names no declared
  field is ignored by the decoder and is no part of the frame. For the channels, which
  are an array, the frame gives what decoding the array does to the list it finds, since
  the decoder works on the elements already there.
\<close>

record 'k frame =
  fType :: "string option"
  fChannels :: "(MessageChannel list \<Rightarrow> MessageChannel list) option"
  fTime :: "int option"
  fOther :: "'k \<rightharpoonup> string"

text \<open>
  \<^verbatim>\<open>wsConn.ReadJSON(&message)\<close> decodes into the message it is given. A field missing from
  the frame keeps what it held. A type tag or a payload field present in the frame is
  overwritten. A timestamp present in the frame is stored unless it is the zero time,
  which \<^verbatim>\<open>gdax.Time\<close> parses and then drops, so that the field keeps what it held.
\<close>

definition decodeInto :: "'k frame \<Rightarrow> 'k Message \<Rightarrow> 'k Message" where
  "decodeInto f m =
     \<lparr>Type = (case fType f of None \<Rightarrow> Type m | Some t \<Rightarrow> t),
      Channels = (case fChannels f of None \<Rightarrow> Channels m | Some merge \<Rightarrow> merge (Channels m)),
      Time = (case fTime f of None \<Rightarrow> Time m | Some t \<Rightarrow> if t = 0 then Time m else t),
      Other = (\<lambda>k. case fOther f k of None \<Rightarrow> Other m k | Some v \<Rightarrow> v)\<rparr>"

text \<open>Naming one field of a message, to speak of all of them at once.\<close>

datatype 'k field = TypeField | ChannelsField | TimeField | OtherField 'k

datatype fieldValue = StringValue string | ChannelsValue "MessageChannel list" | TimeValue int

fun fieldOf :: "'k Message \<Rightarrow> 'k field \<Rightarrow> fieldValue" where
  "fieldOf m TypeField = StringValue (Type m)"
| "fieldOf m ChannelsField = ChannelsValue (Channels m)"
| "fieldOf m TimeField = TimeValue (Time m)"
| "fieldOf m (OtherField k) = StringValue (Other m k)"

text \<open>Whether a frame has a field.\<close>

fun hasField :: "'k frame \<Rightarrow> 'k field \<Rightarrow> bool" where
  "hasField f TypeField = (fType f \<noteq> None)"
| "hasField f ChannelsField = (fChannels f \<noteq> None)"
| "hasField f TimeField = (fTime f \<noteq> None)"
| "hasField f (OtherField k) = (fOther f k \<noteq> None)"

text \<open>
  The value a frame stores in a field whatever the field held: that of a type tag, of a
  payload field and of a timestamp that is not the zero time.
\<close>

fun frameValue :: "'k frame \<Rightarrow> 'k field \<Rightarrow> fieldValue option" where
  "frameValue f TypeField = map_option StringValue (fType f)"
| "frameValue f ChannelsField = None"
| "frameValue f TimeField =
     (case fTime f of None \<Rightarrow> None | Some t \<Rightarrow> if t = 0 then None else Some (TimeValue t))"
| "frameValue f (OtherField k) = map_option StringValue (fOther f k)"

text \<open>
  \<^verbatim>\<open>elastic.NewBulkIndexRequest().Index(i).Type(t).Doc(d)\<close>; the document is the message
  as it stands when the request is built.
\<close>

record 'k BulkIndexRequest =
  reqIndex :: string
  reqType :: string
  reqDoc :: "'k Message"

text \<open>
  An \<^verbatim>\<open>elastic.BulkResponse\<close>, reduced to the items \<^verbatim>\<open>Succeeded()\<close> and \<^verbatim>\<open>Failed()\<close> return.
\<close>

record 'k BulkResponse =
  Succeeded :: "'k BulkIndexRequest list"
  Failed :: "'k BulkIndexRequest list"

section \<open>The outside world\<close>

text \<open>
  What the calls into the websocket library come back with is not decided by this
  program, so it is an input. \<^verbatim>\<open>Dial\<close> returns a connection, or an error and a nil
  connection. On a connection \<^verbatim>\<open>WriteJSON\<close> returns, with or without an error, and
  \<^verbatim>\<open>ReadJSON\<close> returns, with or without an error, having decoded the fields it got to, or
  panics (repeated reads on a failed connection). On a nil connection \<^verbatim>\<open>WriteJSON\<close>
  panics, so that a run whose dial failed has no write result and no reads.
\<close>

datatype writeResult = WriteOk | WriteErr string

datatype 'k readResult = ReadOk "'k frame" | ReadErr string "'k frame" | ReadPanic

text \<open>
  One run of a stream function meets one dial and, when it got a connection, one write
  and a sequence of reads. The reads are a finite prefix of what the connection
  delivers: when they are used up the function is still in its loop, waiting for the
  next tick.
\<close>

datatype 'k taskEnv = Dialed writeResult "'k readResult list" | DialFailed string

section \<open>Actions\<close>

text \<open>
  Every effect of the program on the outside, on the wait group or on the process.
  A function of the program is modelled by the list of actions it performs, in order.
  \<open>NewClient\<close> carries the URLs, the sniff flag, the user and the password;
  \<open>NewBulkProcessor\<close> the name, the workers, the batch size, the flush interval in
  seconds, the stats flag, and the error the call returned. \<open>Panic\<close> is a panic that
  nothing recovers.
\<close>

datatype logger = logMain | logElastic | logStream

datatype level = Info | Error | Fatal

datatype 'k action =
    Log logger level string
  | SetLevel string
  | Sleep nat
  | WgAdd int
  | WgDone
  | WgWait
  | Go "'k action list"
  | CtxDone
  | Cancel
  | OsExit int
  | Panic
  | SignalNotify
  | RecvSignal
  | Dial string
  | WriteJSON "'k Message"
  | ReadJSON
  | ConnClose
  | NewTicker nat
  | Tick
  | TickerStop
  | BulkAdd "'k BulkIndexRequest"
  | BulkClose
  | ClientStop
  | NewClient "string list" bool string string
  | NewBulkProcessor string int int int bool "string option"
  | IndexExists string
  | ReadFile string
  | CreateIndex string string

text \<open>\<^verbatim>\<open>tickerTime = time.Millisecond * 500\<close>, in milliseconds.\<close>

definition tickerTime :: nat where
  "tickerTime = 500"

section \<open>The read loop\<close>

datatype loopEnd = Waiting | Panicked

text \<open>
  The body of \<^verbatim>\<open>for _ = range ticker.C\<close> of \<^verbatim>\<open>indexTicker\<close> and \<^verbatim>\<open>indexOrderBook\<close>, which
  differ in the document type only. The message is the one variable declared before the
  loop. The result is the actions of this iteration, the message after it, and whether
  it panicked.
\<close>

definition loopBody ::
  "string \<Rightarrow> string \<Rightarrow> 'k readResult \<Rightarrow> 'k Message \<Rightarrow> 'k action list \<times> 'k Message \<times> bool" where
  "loopBody indexName docType r message =
     (case r of
        ReadPanic \<Rightarrow> ([Tick, ReadJSON], message, True)
      | ReadErr err f \<Rightarrow> ([Tick, ReadJSON, Log logStream Error err], decodeInto f message, False)
      | ReadOk f \<Rightarrow>
          (let message' = decodeInto f message in
           if IsZero message' then ([Tick, ReadJSON], message', False)
           else ([Tick, ReadJSON,
                  BulkAdd \<lparr>reqIndex = indexName, reqType = docType, reqDoc = message'\<rparr>],
                 message', False)))"

fun readLoop ::
  "string \<Rightarrow> string \<Rightarrow> 'k readResult list \<Rightarrow> 'k Message \<Rightarrow> 'k action list \<times> loopEnd" where
  "readLoop indexName docType [] message = ([], Waiting)"
| "readLoop indexName docType (r # rs) message =
     (case loopBody indexName docType r message of
        (acts, message', True) \<Rightarrow> (acts, Panicked)
      | (acts, message', False) \<Rightarrow>
          (case readLoop indexName docType rs message' of
             (rest, e) \<Rightarrow> (acts @ rest, e)))"

section \<open>The stream functions and their restart handlers\<close>

definition wsURL :: string where
  "wsURL = ''wss://ws-feed.gdax.com''"

text \<open>The subscribe message built by the two stream functions.\<close>

definition subscribe :: "string \<Rightarrow> string \<Rightarrow> 'k Message" where
  "subscribe channel coin =
     \<lparr>Type = ''subscribe'',
      Channels = [\<lparr>Name = channel, ProductIds = [coin]\<rparr>],
      Time = 0, Other = (\<lambda>_. [])\<rparr>"

text \<open>\<^verbatim>\<open>go func() { <-ctx.Done(); os.Exit(1) }()\<close>\<close>

definition watcher :: "'k action list" where
  "watcher = [CtxDone, OsExit 1]"

text \<open>
  \<^verbatim>\<open>indexTicker\<close> with its deferred \<^verbatim>\<open>restartTicker\<close>. The list of environments holds one
  entry for each run of \<^verbatim>\<open>indexTicker\<close> in this goroutine; the function does not return
  normally, so the deferred calls run only when it panics, last registered first:
  \<^verbatim>\<open>ticker.Stop()\<close>, \<^verbatim>\<open>wsConn.Close()\<close>, then \<^verbatim>\<open>restartTicker\<close>, whose \<^verbatim>\<open>recover()\<close> is then
  not nil. The Boolean of \<^verbatim>\<open>restartTicker\<close> is \<^verbatim>\<open>recover() != nil\<close>. After a failed dial the
  error is logged and the function goes on with the nil connection: \<^verbatim>\<open>WriteJSON\<close> panics.
\<close>

fun indexTicker :: "string \<Rightarrow> string \<Rightarrow> 'k taskEnv list \<Rightarrow> 'k action list"
  and restartTicker :: "string \<Rightarrow> string \<Rightarrow> bool \<Rightarrow> 'k taskEnv list \<Rightarrow> 'k action list" where
  "indexTicker indexName coin [] = []"
| "indexTicker indexName coin (DialFailed err # es) =
     Dial wsURL # Log logStream Error err #
     WriteJSON (subscribe ''ticker'' coin) #
     ConnClose # restartTicker indexName coin True es"
| "indexTicker indexName coin (Dialed w rs # es) =
     Dial wsURL #
     WriteJSON (subscribe ''ticker'' coin) #
     (case w of WriteErr err \<Rightarrow> [Log logStream Error err] | WriteOk \<Rightarrow> []) @
     Go watcher # NewTicker tickerTime #
     (case readLoop indexName ''ticker'' rs emptyMessage of
        (acts, Panicked) \<Rightarrow>
          acts @ TickerStop # ConnClose # restartTicker indexName coin True es
      | (acts, Waiting) \<Rightarrow> acts)"
| "restartTicker indexName coin recovered es =
     (if recovered then
        Log logStream Error ''Ticker stream failed, waiting 10 seconds and restatrting'' #
        Sleep 10 # WgAdd 1 # indexTicker indexName coin es
      else [])"

text \<open>\<^verbatim>\<open>indexOrderBook\<close> with its deferred \<^verbatim>\<open>restartOrderBook\<close>, in the same way.\<close>

fun indexOrderBook :: "string \<Rightarrow> string \<Rightarrow> 'k taskEnv list \<Rightarrow> 'k action list"
  and restartOrderBook :: "string \<Rightarrow> string \<Rightarrow> bool \<Rightarrow> 'k taskEnv list \<Rightarrow> 'k action list" where
  "indexOrderBook indexName coin [] = []"
| "indexOrderBook indexName coin (DialFailed err # es) =
     Dial wsURL # Log logStream Error err #
     WriteJSON (subscribe ''level2'' coin) #
     ConnClose # restartOrderBook indexName coin True es"
| "indexOrderBook indexName coin (Dialed w rs # es) =
     Dial wsURL #
     WriteJSON (subscribe ''level2'' coin) #
     (case w of WriteErr err \<Rightarrow> [Log logStream Error err] | WriteOk \<Rightarrow> []) @
     Go watcher # NewTicker tickerTime #
     (case readLoop indexName ''snap-shot'' rs emptyMessage of
        (acts, Panicked) \<Rightarrow>
          acts @ TickerStop # ConnClose # restartOrderBook indexName coin True es
      | (acts, Waiting) \<Rightarrow> acts)"
| "restartOrderBook indexName coin recovered es =
     (if recovered then
        Log logStream Error ''Order book stream failed, waiting 10 seconds and restatrting'' #
        Sleep 10 # WgAdd 1 # indexOrderBook coin indexName es
      else [])"

section \<open>Configuration and start-up\<close>

text \<open>The \<^verbatim>\<open>Configuration\<close> struct.\<close>

record Configuration =
  ElasticClientBatchSize :: int
  ElasticClientWorkers :: int
  ElasticClientFlushInterval :: int
  ElasticClientStatsEnabled :: bool
  Elastic :: "string list"
  ElasticUser :: string
  ElasticPassword :: string
  ElasticSniff :: bool
  ElasticIndexName :: string
  GDAXMarkets :: "string list"
  LogLevel :: string

text \<open>
  What \<^verbatim>\<open>main\<close> meets: the outcome of loading the configuration, of the calls into the
  elastic client and of reading the template file; the responses of the flushes that
  \<^verbatim>\<open>Close()\<close> makes of the batches still outstanding (none for no response); and, for the
  market at each position of \<^verbatim>\<open>GDAXMarkets\<close>, the environments of its order-book and of its
  ticker goroutine. An error is its text.
\<close>

record 'k mainEnv =
  loadConfig :: "string + Configuration"
  newClient :: "string option"
  newBulkProcessor :: "string option"
  indexExists :: "string + bool"
  readTemplate :: "string + string"
  createIndex :: "string option"
  finalFlush :: "'k BulkResponse option list"
  bulkClose :: "string option"
  orderBookEnv :: "nat \<Rightarrow> 'k taskEnv list"
  tickerEnv :: "nat \<Rightarrow> 'k taskEnv list"

text \<open>\<^verbatim>\<open>errors.Wraps\<close> and \<^verbatim>\<open>errors.Wrapf\<close> with one \<^verbatim>\<open>%v\<close>: the text of the wrapped error.\<close>

definition Wraps :: "string \<Rightarrow> string \<Rightarrow> string" where
  "Wraps err msg = msg @ '': '' @ err"

definition Wrapf :: "string \<Rightarrow> string \<Rightarrow> string \<Rightarrow> string" where
  "Wrapf err msg arg = msg @ arg @ '': '' @ err"

text \<open>\<^verbatim>\<open>strconv.Itoa\<close> on a length, which is not negative.\<close>

definition digit :: "nat \<Rightarrow> char" where
  "digit n = ''0123456789'' ! n"

function Itoa :: "nat \<Rightarrow> string" where
  "Itoa n = (if n < 10 then [digit n] else Itoa (n div 10) @ [digit (n mod 10)])"
  by pat_completeness auto
termination
  by (relation "measure id") auto

text \<open>\<^verbatim>\<open>Fatal\<close> of a logger writes the entry and calls \<^verbatim>\<open>os.Exit(1)\<close>.\<close>

definition fatal :: "logger \<Rightarrow> string \<Rightarrow> 'k action list" where
  "fatal l msg = [Log l Fatal msg, OsExit 1]"

text \<open>
  \<^verbatim>\<open>elasticBulkProcessorFinished\<close>, on the response of a flush. The function calls
  \<^verbatim>\<open>response.Succeeded()\<close> without a test, which panics on a nil response, in a goroutine
  of the bulk processor that does not recover.
\<close>

definition elasticBulkProcessorFinished :: "'k BulkResponse option \<Rightarrow> 'k action list" where
  "elasticBulkProcessorFinished response =
     (case response of
        None \<Rightarrow> [Panic]
      | Some r \<Rightarrow>
          (if 0 < length (Succeeded r) then
             [Log logElastic Info
                (''Successfully sent '' @ Itoa (length (Succeeded r)) @ '' documents to elastic'')]
           else []) @
          (if 0 < length (Failed r) then
             [Log logElastic Info (''Errors recieved '' @ Itoa (length (Failed r)))]
           else []))"

text \<open>
  \<^verbatim>\<open>initializeElasticClient\<close>: its actions and the error it returns. The goroutine it
  starts runs its deferred \<^verbatim>\<open>wg.Done()\<close> last.
\<close>

definition initializeElasticClient ::
  "'k mainEnv \<Rightarrow> Configuration \<Rightarrow> 'k action list \<times> string option" where
  "initializeElasticClient env config =
     (let call = NewClient (Elastic config) (ElasticSniff config) (ElasticUser config)
                   (ElasticPassword config) in
      case newClient env of
        Some elasticErr \<Rightarrow> ([call], Some elasticErr)
      | None \<Rightarrow>
          ([call,
            Log logElastic Info ''Elastic client successfully initialized'',
            WgAdd 1,
            Go [CtxDone, Log logElastic Info ''Shutting elastic client'', ClientStop, WgDone]],
           None))"

text \<open>
  \<^verbatim>\<open>initializeElasticBulkProcessor\<close>. The processor is built with
  \<^verbatim>\<open>After(elasticBulkProcessorFinished)\<close>: the function is called after every flush, so also
  after those that \<^verbatim>\<open>Close()\<close> makes before it returns.
\<close>

definition initializeElasticBulkProcessor ::
  "'k mainEnv \<Rightarrow> Configuration \<Rightarrow> 'k action list \<times> string option" where
  "initializeElasticBulkProcessor env config =
     (let call = NewBulkProcessor ''embargod-indexer'' (ElasticClientWorkers config)
                   (ElasticClientBatchSize config) (ElasticClientFlushInterval config)
                   (ElasticClientStatsEnabled config) (newBulkProcessor env) in
      case newBulkProcessor env of
        Some processorErr \<Rightarrow> ([call], Some processorErr)
      | None \<Rightarrow>
          ([call,
            Log logElastic Info ''Elastic bulk processor successfully initialized'',
            WgAdd 1,
            Go ([CtxDone, Log logElastic Info ''Shutting down elastic bulk processor'',
                 BulkClose] @
                concat (map elasticBulkProcessorFinished (finalFlush env)) @
                (case bulkClose env of
                   Some err \<Rightarrow>
                     [Log logElastic Error
                        (Wraps err ''Error shutting down elastic bulk processor'')]
                 | None \<Rightarrow> []) @
                [Log logElastic Info ''Successfully shut down elastic bulk processor'',
                 WgDone])],
           None))"

text \<open>\<^verbatim>\<open>initializeIndex\<close>: its actions, and whether it returned (it does not after \<^verbatim>\<open>Fatal\<close>).\<close>

definition initializeIndex :: "'k mainEnv \<Rightarrow> Configuration \<Rightarrow> 'k action list \<times> bool" where
  "initializeIndex env config =
     (let name = ElasticIndexName config;
          templateFile = ''elastic-template.json'' in
      case indexExists env of
        Inl existError \<Rightarrow>
          (Log logElastic Info (''Initializing index '' @ name) # IndexExists name #
           fatal logElastic existError, False)
      | Inr True \<Rightarrow>
          ([Log logElastic Info (''Initializing index '' @ name), IndexExists name,
            Log logElastic Info (''Index '' @ name @ '' exists, nothing to do'')], True)
      | Inr False \<Rightarrow>
          (case readTemplate env of
             Inl jsonErr \<Rightarrow>
               (Log logElastic Info (''Initializing index '' @ name) # IndexExists name #
                ReadFile templateFile #
                fatal logElastic
                  (Wrapf jsonErr ''Unable to refresh index. Error opening '' templateFile),
                False)
           | Inr json \<Rightarrow>
               (case createIndex env of
                  Some createIndexErr \<Rightarrow>
                    (Log logElastic Info (''Initializing index '' @ name) # IndexExists name #
                     ReadFile templateFile # CreateIndex name json #
                     fatal logElastic
                       (Wrapf createIndexErr
                          ''Unable to create index. Error PUTing index definition for '' name),
                     False)
                | None \<Rightarrow>
                    ([Log logElastic Info (''Initializing index '' @ name), IndexExists name,
                      ReadFile templateFile, CreateIndex name json,
                      Log logElastic Info (''Created index '' @ name)], True))))"

text \<open>\<^verbatim>\<open>waitForSignal\<close>\<close>

definition waitForSignal :: "'k action list" where
  "waitForSignal =
     [SignalNotify, RecvSignal, Log logMain Info ''Got interrupt signal. Initiating Shutdown.'']"

text \<open>
  The loop \<^verbatim>\<open>for _, market := range config.GDAXMarkets\<close> of \<^verbatim>\<open>main\<close>, from position \<open>i\<close>
  of the list on.
\<close>

fun startIndexers :: "'k mainEnv \<Rightarrow> string \<Rightarrow> nat \<Rightarrow> string list \<Rightarrow> 'k action list" where
  "startIndexers env indexName i [] = []"
| "startIndexers env indexName i (market # markets) =
     Log logMain Info (''Starting indexer for order book '' @ market) #
     WgAdd 1 #
     Go (indexOrderBook indexName market (orderBookEnv env i)) #
     Log logMain Info (''Starting indexer for ticket '' @ market) #
     WgAdd 1 #
     Go (indexTicker indexName market (tickerEnv env i)) #
     startIndexers env indexName (Suc i) markets"

text \<open>\<^verbatim>\<open>main\<close>, after \<^verbatim>\<open>flag.Parse()\<close>.\<close>

definition main :: "'k mainEnv \<Rightarrow> 'k action list" where
  "main env =
     (case loadConfig env of
        Inl configErr \<Rightarrow> fatal logMain (Wraps configErr ''Error loading configuration'')
      | Inr config \<Rightarrow>
          SetLevel (if LogLevel config = ''debug'' then ''debug'' else ''info'') #
          (case initializeElasticClient env config of
             (a1, Some err) \<Rightarrow>
               a1 @ fatal logElastic (Wraps err ''Could not connect to elastic cluster'')
           | (a1, None) \<Rightarrow>
               a1 @
               (case initializeElasticBulkProcessor env config of
                  (a2, Some err) \<Rightarrow>
                    a2 @ fatal logElastic (Wraps err ''Could not start bulk processor'')
                | (a2, None) \<Rightarrow>
                    a2 @
                    (case initializeIndex env config of
                       (a3, False) \<Rightarrow> a3
                     | (a3, True) \<Rightarrow>
                         a3 @
                         startIndexers env (ElasticIndexName config) 0 (GDAXMarkets config) @
                         waitForSignal @ [Cancel, WgWait]))))"

section \<open>The process\<close>

text \<open>
  The goroutines run interleaved, one action at a time. The process holds the counter of
  the wait group, whether the context is cancelled, whether \<^verbatim>\<open>signal.Notify\<close> has been
  called and whether a signal waits in the channel, whether the bulk processor is
  running, how the process ended if it has, what is left of \<^verbatim>\<open>main\<close> and of every goroutine
  started, and all actions performed. A goroutine with nothing left does nothing more;
  for a stream function that is the end of the reads its environment holds, where it
  sits in its loop.
\<close>

datatype exit = Returned | Exited int | Killed | Crashed

record 'k process =
  wg :: int
  cancelled :: bool
  notified :: bool
  signal :: bool
  processor :: bool
  exited :: "exit option"
  mainThread :: "'k action list"
  goroutines :: "'k action list list"
  trace :: "'k action list"

text \<open>
  An action that waits: \<^verbatim>\<open>wg.Wait()\<close> for the counter to be zero, \<^verbatim>\<open><-ctx.Done()\<close> for the
  cancellation, \<^verbatim>\<open><-c\<close> for a signal.
\<close>

fun enabled :: "'k action \<Rightarrow> 'k process \<Rightarrow> bool" where
  "enabled WgWait s = (wg s = 0)"
| "enabled CtxDone s = cancelled s"
| "enabled RecvSignal s = signal s"
| "enabled a s = True"

text \<open>What an action does to the process, apart from leaving its goroutine's list.\<close>

fun effect :: "'k action \<Rightarrow> 'k process \<Rightarrow> 'k process" where
  "effect (WgAdd n) s = s\<lparr>wg := wg s + n\<rparr>"
| "effect WgDone s = s\<lparr>wg := wg s - 1\<rparr>"
| "effect (Go body) s = s\<lparr>goroutines := goroutines s @ [body]\<rparr>"
| "effect Cancel s = s\<lparr>cancelled := True\<rparr>"
| "effect SignalNotify s = s\<lparr>notified := True\<rparr>"
| "effect RecvSignal s = s\<lparr>signal := False\<rparr>"
| "effect (NewBulkProcessor name workers batch interval stats err) s =
     s\<lparr>processor := (err = None)\<rparr>"
| "effect BulkClose s = s\<lparr>processor := False\<rparr>"
| "effect a s = s"

text \<open>
  An action that ends the process instead: \<^verbatim>\<open>os.Exit\<close>, a panic that nothing recovers, and
  a wait-group counter driven below zero, which is such a panic.
\<close>

fun ending :: "'k action \<Rightarrow> 'k process \<Rightarrow> exit option" where
  "ending (OsExit c) s = Some (Exited c)"
| "ending Panic s = Some Crashed"
| "ending (WgAdd n) s = (if wg s + n < 0 then Some Crashed else None)"
| "ending WgDone s = (if wg s - 1 < 0 then Some Crashed else None)"
| "ending a s = None"

text \<open>
  What can happen next: an interrupt from outside, a step of \<^verbatim>\<open>main\<close>, a step of the
  goroutine at a position, or the bulk processor finishing a flush with a response.
\<close>

datatype 'k event = Interrupt | RunMain | RunGo nat | Flush "'k BulkResponse option"

text \<open>
  One step. Nothing happens after the process has ended. An interrupt is put into the
  channel once \<^verbatim>\<open>signal.Notify\<close> has been called and kills the process before. A
  goroutine performs the first action left to it if that action does not have to wait.
  When \<^verbatim>\<open>main\<close> has performed its last action it returns, which ends the process. An
  action that ends the process changes nothing else. While the bulk processor is
  running, a flush it finishes calls \<^verbatim>\<open>elasticBulkProcessorFinished\<close>.
\<close>

definition perform :: "'k action \<Rightarrow> 'k process \<Rightarrow> 'k process" where
  "perform a s =
     (case ending a s of
        Some x \<Rightarrow> s\<lparr>exited := Some x\<rparr>
      | None \<Rightarrow> effect a (s\<lparr>trace := trace s @ [a]\<rparr>))"

fun performAll :: "'k action list \<Rightarrow> 'k process \<Rightarrow> 'k process" where
  "performAll [] s = s"
| "performAll (a # as) s =
     (if ending a s \<noteq> None then perform a s else performAll as (perform a s))"

definition step :: "'k event \<Rightarrow> 'k process \<Rightarrow> 'k process" where
  "step ev s =
     (if exited s \<noteq> None then s
      else case ev of
        Interrupt \<Rightarrow> if notified s then s\<lparr>signal := True\<rparr> else s\<lparr>exited := Some Killed\<rparr>
      | RunMain \<Rightarrow>
          (case mainThread s of
             [] \<Rightarrow> s
           | a # as \<Rightarrow>
               if \<not> enabled a s then s
               else if ending a s \<noteq> None then perform a s
               else if as = [] then (perform a (s\<lparr>mainThread := as\<rparr>))\<lparr>exited := Some Returned\<rparr>
               else perform a (s\<lparr>mainThread := as\<rparr>))
      | RunGo k \<Rightarrow>
          if k < length (goroutines s) then
            (case goroutines s ! k of
               [] \<Rightarrow> s
             | a # as \<Rightarrow>
                 if \<not> enabled a s then s
                 else if ending a s \<noteq> None then perform a s
                 else perform a (s\<lparr>goroutines := (goroutines s)[k := as]\<rparr>))
          else s
      | Flush response \<Rightarrow>
          if processor s then performAll (elasticBulkProcessorFinished response) s else s)"

primrec run :: "'k event list \<Rightarrow> 'k process \<Rightarrow> 'k process" where
  "run [] s = s"
| "run (ev # evs) s = run evs (step ev s)"

definition start :: "'k mainEnv \<Rightarrow> 'k process" where
  "start env =
     \<lparr>wg = 0, cancelled = False, notified = False, signal = False, processor = False,
      exited = None, mainThread = main env, goroutines = [], trace = []\<rparr>"

section \<open>Reading a list of actions\<close>

text \<open>The requests handed to \<^verbatim>\<open>elasticBulkProcessor.Add\<close>, in order.\<close>

fun enqueued :: "'k action list \<Rightarrow> 'k BulkIndexRequest list" where
  "enqueued [] = []"
| "enqueued (BulkAdd r # as) = r # enqueued as"
| "enqueued (a # as) = enqueued as"

text \<open>The messages handed to \<^verbatim>\<open>wsConn.WriteJSON\<close>, in order.\<close>

fun sent :: "'k action list \<Rightarrow> 'k Message list" where
  "sent [] = []"
| "sent (WriteJSON m # as) = m # sent as"
| "sent (a # as) = sent as"

text \<open>The attempts to read, counted.\<close>

fun readAttempts :: "'k action list \<Rightarrow> nat" where
  "readAttempts [] = 0"
| "readAttempts (ReadJSON # as) = Suc (readAttempts as)"
| "readAttempts (a # as) = readAttempts as"

text \<open>
  The changes made to the counter of the wait group, in order: \<open>n\<close> for \<^verbatim>\<open>wg.Add(n)\<close> and
  \<open>-1\<close> for \<^verbatim>\<open>wg.Done()\<close>.
\<close>

fun wgCalls :: "'k action list \<Rightarrow> int list" where
  "wgCalls [] = []"
| "wgCalls (WgAdd n # as) = n # wgCalls as"
| "wgCalls (WgDone # as) = - 1 # wgCalls as"
| "wgCalls (a # as) = wgCalls as"

text \<open>The two calls that shut the index store down.\<close>

fun isShutdown :: "'k action \<Rightarrow> bool" where
  "isShutdown BulkClose = True"
| "isShutdown ClientStop = True"
| "isShutdown a = False"

section \<open>Reading a sequence of reads\<close>

text \<open>A frame that carries a timestamp of its own which is not the zero time.\<close>

definition stamped :: "'k frame \<Rightarrow> bool" where
  "stamped f = (case fTime f of None \<Rightarrow> False | Some t \<Rightarrow> t \<noteq> 0)"

text \<open>The reads a loop gets through: those before the first one that panics.\<close>

fun processed :: "'k readResult list \<Rightarrow> 'k readResult list" where
  "processed [] = []"
| "processed (ReadPanic # rs) = []"
| "processed (r # rs) = r # processed rs"

text \<open>The frames of the reads that returned without an error.\<close>

fun okFrames :: "'k readResult list \<Rightarrow> 'k frame list" where
  "okFrames [] = []"
| "okFrames (ReadOk f # rs) = f # okFrames rs"
| "okFrames (r # rs) = okFrames rs"

text \<open>The frame a read decoded, if it returned.\<close>

fun frameOf :: "'k readResult \<Rightarrow> 'k frame option" where
  "frameOf (ReadOk f) = Some f"
| "frameOf (ReadErr err f) = Some f"
| "frameOf ReadPanic = None"

text \<open>The message after a sequence of reads that all returned.\<close>

fun envelopeAfter :: "'k readResult list \<Rightarrow> 'k Message \<Rightarrow> 'k Message" where
  "envelopeAfter [] m = m"
| "envelopeAfter (r # rs) m =
     envelopeAfter rs (case frameOf r of None \<Rightarrow> m | Some f \<Rightarrow> decodeInto f m)"

text \<open>A read that returned and whose frame leaves the field out.\<close>

definition omitsField :: "'k field \<Rightarrow> 'k readResult \<Rightarrow> bool" where
  "omitsField k r = (case frameOf r of None \<Rightarrow> False | Some f \<Rightarrow> \<not> hasField f k)"

section \<open>Sample inputs\<close>

text \<open>Two payload fields, to write frames down with.\<close>

datatype sampleField = PriceField | SizeField

definition noFrame :: "sampleField frame" where
  "noFrame = \<lparr>fType = None, fChannels = None, fTime = None, fOther = Map.empty\<rparr>"

definition ackFrame :: "sampleField frame" where
  "ackFrame =
     \<lparr>fType = Some ''subscriptions'',
      fChannels = Some (\<lambda>_. [\<lparr>Name = ''ticker'', ProductIds = [''BTC-USD'']\<rparr>]),
      fTime = None, fOther = Map.empty\<rparr>"

definition tickFrame :: "sampleField frame" where
  "tickFrame =
     \<lparr>fType = Some ''ticker'', fChannels = None, fTime = Some 1514764800,
      fOther = [PriceField \<mapsto> ''13000.01'']\<rparr>"

definition laterFrame :: "sampleField frame" where
  "laterFrame =
     \<lparr>fType = Some ''ticker'', fChannels = None, fTime = Some 1514764801,
      fOther = [PriceField \<mapsto> ''13000.02'']\<rparr>"

definition sizeFrame :: "sampleField frame" where
  "sizeFrame =
     \<lparr>fType = None, fChannels = None, fTime = None,
      fOther = [SizeField \<mapsto> ''0.5'']\<rparr>"

definition zeroFrame :: "sampleField frame" where
  "zeroFrame =
     \<lparr>fType = Some ''heartbeat'', fChannels = None, fTime = Some 0, fOther = Map.empty\<rparr>"

definition steadyEnv :: "sampleField taskEnv" where
  "steadyEnv =
     Dialed WriteOk
       [ReadOk ackFrame, ReadOk tickFrame, ReadErr ''unexpected EOF'' noFrame,
        ReadOk sizeFrame]"

definition stampedEnv :: "sampleField taskEnv" where
  "stampedEnv =
     Dialed WriteOk
       [ReadOk ackFrame, ReadOk tickFrame, ReadErr ''unexpected EOF'' noFrame,
        ReadOk laterFrame]"

definition staleEnv :: "sampleField taskEnv" where
  "staleEnv =
     Dialed WriteOk [ReadOk ackFrame, ReadOk tickFrame, ReadOk sizeFrame, ReadOk zeroFrame]"

definition panicEnv :: "sampleField taskEnv" where
  "panicEnv = Dialed WriteOk [ReadPanic]"

definition brokenPipeEnv :: "sampleField taskEnv" where
  "brokenPipeEnv = Dialed (WriteErr ''broken pipe'') [ReadOk tickFrame]"

definition refusedEnv :: "sampleField taskEnv" where
  "refusedEnv = DialFailed ''connection refused''"

section \<open>Sample processes\<close>

text \<open>
  A configuration with one market. \<^verbatim>\<open>main\<close> takes 19 steps up to and including
  \<^verbatim>\<open>signal.Notify\<close>; the goroutines it starts are, in order, the shutdown of the client,
  the shutdown of the bulk processor, the order book and the ticker, and the watchers
  follow as they are started.
\<close>

definition sampleConfig :: Configuration where
  "sampleConfig =
     \<lparr>ElasticClientBatchSize = 5, ElasticClientWorkers = 10, ElasticClientFlushInterval = 5,
      ElasticClientStatsEnabled = True, Elastic = [''http://localhost:9200''],
      ElasticUser = ''elastic'', ElasticPassword = ''changeme'', ElasticSniff = False,
      ElasticIndexName = ''gdax-market'', GDAXMarkets = [''BTC-USD''], LogLevel = ''debug''\<rparr>"

definition sampleEnv :: "sampleField mainEnv" where
  "sampleEnv =
     \<lparr>loadConfig = Inr sampleConfig, newClient = None, newBulkProcessor = None,
      indexExists = Inr True, readTemplate = Inr [], createIndex = None,
      finalFlush = [], bulkClose = None,
      orderBookEnv = (\<lambda>_. [steadyEnv]), tickerEnv = (\<lambda>_. [panicEnv, steadyEnv])\<rparr>"

definition launch :: "sampleField event list" where
  "launch = replicate 19 RunMain"

definition interrupt :: "sampleField event list" where
  "interrupt = [Interrupt, RunMain, RunMain, RunMain]"

definition restartRun :: "sampleField event list" where
  "restartRun = launch @ replicate 11 (RunGo 3)"

definition abruptRun :: "sampleField event list" where
  "abruptRun = launch @ replicate 3 (RunGo 2) @ interrupt @ replicate 2 (RunGo 4)"

definition unflushedRun :: "sampleField event list" where
  "unflushedRun = launch @ replicate 9 (RunGo 2) @ interrupt @ replicate 2 (RunGo 4)"

section \<open>The read loop, one read at a time\<close>

lemma readLoop_ReadOk:
  "readLoop indexName docType (ReadOk f # rs) m =
     (Tick # ReadJSON #
      (if IsZero (decodeInto f m) then []
       else [BulkAdd \<lparr>reqIndex = indexName, reqType = docType, reqDoc = decodeInto f m\<rparr>]) @
      fst (readLoop indexName docType rs (decodeInto f m)),
      snd (readLoop indexName docType rs (decodeInto f m)))"
  by (simp add: loopBody_def Let_def split_beta)

lemma readLoop_ReadErr:
  "readLoop indexName docType (ReadErr err f # rs) m =
     (Tick # ReadJSON # Log logStream Error err #
      fst (readLoop indexName docType rs (decodeInto f m)),
      snd (readLoop indexName docType rs (decodeInto f m)))"
  by (simp add: loopBody_def split_beta)

lemma readLoop_ReadPanic:
  "readLoop indexName docType (ReadPanic # rs) m = ([Tick, ReadJSON], Panicked)"
  by (simp add: loopBody_def)

lemmas readLoop_Cons = readLoop_ReadOk readLoop_ReadErr readLoop_ReadPanic

lemma enqueued_append: "enqueued (xs @ ys) = enqueued xs @ enqueued ys"
  by (induction xs rule: enqueued.induct) simp_all

lemma sent_append: "sent (xs @ ys) = sent xs @ sent ys"
  by (induction xs rule: sent.induct) simp_all

lemma sent_readLoop: "sent (fst (readLoop indexName docType rs m)) = []"
proof (induction rs arbitrary: m)
  case Nil
  show ?case by simp
next
  case (Cons r rs)
  show ?case
    by (cases r) (simp_all del: readLoop.simps add: readLoop_Cons Cons.IH sent_append)
qed

lemma labels_readLoop:
  "r \<in> set (enqueued (fst (readLoop indexName docType rs m))) \<Longrightarrow>
   reqIndex r = indexName \<and> reqType r = docType"
proof (induction rs arbitrary: m)
  case Nil
  then show ?case by simp
next
  case (Cons x rs)
  then show ?case
    by (cases x) (auto simp del: readLoop.simps simp: readLoop_Cons split: if_splits)
qed

section \<open>One request for each frame with a timestamp\<close>

lemma stamped_not_zero: "stamped f \<Longrightarrow> \<not> IsZero (decodeInto f m)"
  by (auto simp: stamped_def IsZero_def decodeInto_def split: option.splits)

lemma unstamped_keeps_zero: "\<not> stamped f \<Longrightarrow> IsZero m \<Longrightarrow> IsZero (decodeInto f m)"
  by (auto simp: stamped_def IsZero_def decodeInto_def split: option.splits)

lemma count_stamped:
  "\<forall>f \<in> set (okFrames (processed rs)). stamped f \<Longrightarrow>
   length (enqueued (fst (readLoop indexName docType rs m))) = length (okFrames (processed rs))"
proof (induction rs arbitrary: m)
  case Nil
  show ?case by simp
next
  case (Cons r rs)
  then show ?case
    by (cases r)
       (simp_all del: readLoop.simps add: readLoop_Cons enqueued_append stamped_not_zero)
qed

lemma leading_unstamped_skipped:
  "\<forall>f \<in> set lead. \<not> stamped f \<Longrightarrow> IsZero m \<Longrightarrow>
   enqueued (fst (readLoop indexName docType (map ReadOk lead @ rest) m)) =
     enqueued (fst (readLoop indexName docType rest (envelopeAfter (map ReadOk lead) m))) \<and>
   IsZero (envelopeAfter (map ReadOk lead) m)"
proof (induction lead arbitrary: m)
  case Nil
  then show ?case by simp
next
  case (Cons f lead)
  have z: "IsZero (decodeInto f m)"
    using Cons.prems by (simp add: unstamped_keeps_zero)
  show ?case
    using Cons.prems Cons.IH [OF _ z] z
    by (simp del: readLoop.simps add: readLoop_Cons enqueued_append)
qed

lemma count_after_lead:
  assumes "\<forall>f \<in> set lead. \<not> stamped f"
    and "\<forall>f \<in> set (okFrames (processed rest)). stamped f"
  shows "length (enqueued (fst (readLoop indexName docType (map ReadOk lead @ rest) emptyMessage))) =
         length (okFrames (processed rest))"
proof -
  have "IsZero (emptyMessage :: 'a Message)"
    by (simp add: IsZero_def emptyMessage_def)
  then show ?thesis
    using leading_unstamped_skipped [OF assms(1), of emptyMessage indexName docType rest]
      count_stamped [OF assms(2)]
    by simp
qed

lemma enqueued_indexTicker_one:
  "enqueued (indexTicker indexName coin [Dialed w rs]) =
     enqueued (fst (readLoop indexName ''ticker'' rs emptyMessage))"
  by (cases "readLoop indexName ''ticker'' rs (emptyMessage :: 'a Message)")
     (auto simp: enqueued_append split: writeResult.splits loopEnd.splits)

lemma enqueued_indexOrderBook_one:
  "enqueued (indexOrderBook indexName coin [Dialed w rs]) =
     enqueued (fst (readLoop indexName ''snap-shot'' rs emptyMessage))"
  by (cases "readLoop indexName ''snap-shot'' rs (emptyMessage :: 'a Message)")
     (auto simp: enqueued_append split: writeResult.splits loopEnd.splits)

text \<open>
  C3. In one run of a stream function that has its connection, let the reads begin with
  any number of frames without a timestamp of their own, and let every frame read
  successfully after them, up to a panic if there is one, carry a timestamp of its own
  that is not zero. When there are N of these, exactly N requests are enqueued; each
  carries the index name the function was given, and the document type \<^verbatim>\<open>ticker\<close> in
  \<^verbatim>\<open>indexTicker\<close> and \<^verbatim>\<open>snap-shot\<close> in \<^verbatim>\<open>indexOrderBook\<close>.
\<close>

theorem one_request_per_stamped_frame:
  assumes "\<forall>f \<in> set lead. \<not> stamped f"
    and "\<forall>f \<in> set (okFrames (processed rest)). stamped f"
    and "length (okFrames (processed rest)) = N"
  shows "length (enqueued (indexTicker indexName coin [Dialed w (map ReadOk lead @ rest)])) = N \<and>
         (\<forall>r \<in> set (enqueued (indexTicker indexName coin [Dialed w (map ReadOk lead @ rest)])).
            reqIndex r = indexName \<and> reqType r = ''ticker'') \<and>
         length (enqueued (indexOrderBook indexName coin [Dialed w (map ReadOk lead @ rest)])) = N \<and>
         (\<forall>r \<in> set (enqueued (indexOrderBook indexName coin [Dialed w (map ReadOk lead @ rest)])).
            reqIndex r = indexName \<and> reqType r = ''snap-shot'')"
  using count_after_lead [OF assms(1,2)] assms(3)
  by (auto simp del: indexTicker.simps indexOrderBook.simps
      simp: enqueued_indexTicker_one enqueued_indexOrderBook_one dest: labels_readLoop)

theorem one_request_per_stamped_frame_witness:
  "list_all (\<lambda>f. \<not> stamped f) [ackFrame] \<and>
   list_all stamped
     (okFrames (processed [ReadOk tickFrame, ReadErr ''unexpected EOF'' noFrame,
                           ReadOk laterFrame])) \<and>
   length (okFrames (processed [ReadOk tickFrame, ReadErr ''unexpected EOF'' noFrame,
                                ReadOk laterFrame])) = 2 \<and>
   stampedEnv =
     Dialed WriteOk
       (map ReadOk [ackFrame] @
        [ReadOk tickFrame, ReadErr ''unexpected EOF'' noFrame, ReadOk laterFrame]) \<and>
   length (enqueued (indexTicker ''gdax-market'' ''BTC-USD'' [stampedEnv])) = 2 \<and>
   list_all (\<lambda>r. reqIndex r = ''gdax-market'' \<and> reqType r = ''ticker'')
     (enqueued (indexTicker ''gdax-market'' ''BTC-USD'' [stampedEnv])) \<and>
   length (enqueued (indexOrderBook ''gdax-market'' ''BTC-USD'' [stampedEnv])) = 2 \<and>
   list_all (\<lambda>r. reqIndex r = ''gdax-market'' \<and> reqType r = ''snap-shot'')
     (enqueued (indexOrderBook ''gdax-market'' ''BTC-USD'' [stampedEnv]))"
proof -
  let ?rest = "[ReadOk tickFrame, ReadErr ''unexpected EOF'' noFrame, ReadOk laterFrame]"
  have l: "\<forall>f \<in> set [ackFrame]. \<not> stamped f"
    by (simp add: stamped_def ackFrame_def)
  have s: "\<forall>f \<in> set (okFrames (processed ?rest)). stamped f"
    by (simp add: stamped_def tickFrame_def laterFrame_def)
  have n: "length (okFrames (processed ?rest)) = 2"
    by simp
  have e: "stampedEnv = Dialed WriteOk (map ReadOk [ackFrame] @ ?rest)"
    by (simp add: stampedEnv_def)
  show ?thesis
    unfolding list_all_iff e
    using l s n
      one_request_per_stamped_frame [OF l s n, of "''gdax-market''" "''BTC-USD''" WriteOk]
    by blast
qed

section \<open>Frames without a timestamp of their own\<close>

lemma zero_time_after_read_is_skipped:
  "IsZero (decodeInto f m) \<Longrightarrow>
   readLoop indexName docType (ReadOk f # rs) m =
     (Tick # ReadJSON # fst (readLoop indexName docType rs (decodeInto f m)),
      snd (readLoop indexName docType rs (decodeInto f m)))"
  by (simp del: readLoop.simps add: readLoop_ReadOk)

lemma stale_time_is_enqueued:
  "\<not> stamped f \<Longrightarrow> \<not> IsZero m \<Longrightarrow>
   loopBody indexName docType (ReadOk f) m =
     ([Tick, ReadJSON,
       BulkAdd \<lparr>reqIndex = indexName, reqType = docType, reqDoc = decodeInto f m\<rparr>],
      decodeInto f m, False) \<and>
   Time (decodeInto f m) = Time m"
  by (auto simp: loopBody_def Let_def stamped_def IsZero_def decodeInto_def split: option.splits)

text \<open>
  C2. A frame whose timestamp is absent or zero is skipped only while the message of the
  loop holds no timestamp yet. The message is declared before the loop and never reset,
  and the test is made on it: in this run the acknowledgement, read first, is skipped,
  but the frame without a timestamp and the frame with the zero time that follow a frame
  with a timestamp are both enqueued, under the timestamp of that frame.
\<close>

theorem frame_without_timestamp_is_enqueued_after_a_stamped_one:
  "staleEnv =
     Dialed WriteOk [ReadOk ackFrame, ReadOk tickFrame, ReadOk sizeFrame, ReadOk zeroFrame] \<and>
   fTime ackFrame = None \<and> fTime tickFrame = Some 1514764800 \<and>
   fTime sizeFrame = None \<and> fTime zeroFrame = Some 0 \<and>
   map (\<lambda>r. (Type (reqDoc r), Time (reqDoc r)))
     (enqueued (indexTicker ''gdax-market'' ''BTC-USD'' [staleEnv])) =
     [(''ticker'', 1514764800), (''ticker'', 1514764800), (''heartbeat'', 1514764800)] \<and>
   map (\<lambda>r. (Type (reqDoc r), Time (reqDoc r)))
     (enqueued (indexOrderBook ''gdax-market'' ''BTC-USD'' [staleEnv])) =
     [(''ticker'', 1514764800), (''ticker'', 1514764800), (''heartbeat'', 1514764800)]"
  by (simp add: staleEnv_def loopBody_def Let_def IsZero_def decodeInto_def emptyMessage_def
      ackFrame_def tickFrame_def sizeFrame_def zeroFrame_def)

section \<open>Reads that return an error\<close>

text \<open>
  C8. When the read of an iteration returns an error, the iteration is the tick, the
  read and one log entry of the error: no sleep, no dial, no request. The loop goes on
  with the next read.
\<close>

theorem read_error_is_logged_and_loop_goes_on:
  "loopBody indexName docType (ReadErr err f) m =
     ([Tick, ReadJSON, Log logStream Error err], decodeInto f m, False) \<and>
   readLoop indexName docType (ReadErr err f # rs) m =
     (Tick # ReadJSON # Log logStream Error err #
      fst (readLoop indexName docType rs (decodeInto f m)),
      snd (readLoop indexName docType rs (decodeInto f m)))"
  by (simp del: readLoop.simps add: readLoop_ReadErr loopBody_def)

theorem read_error_is_logged_and_loop_goes_on_witness:
  "readLoop ''gdax-market'' ''snap-shot'' [ReadErr ''unexpected EOF'' noFrame, ReadOk tickFrame]
     emptyMessage =
     ([Tick, ReadJSON, Log logStream Error ''unexpected EOF'', Tick, ReadJSON,
       BulkAdd \<lparr>reqIndex = ''gdax-market'', reqType = ''snap-shot'',
                reqDoc = decodeInto tickFrame (decodeInto noFrame emptyMessage)\<rparr>], Waiting)"
proof -
  have n: "\<not> IsZero (decodeInto tickFrame (decodeInto noFrame emptyMessage))"
    by (simp add: IsZero_def decodeInto_def tickFrame_def)
  have t: "readLoop ''gdax-market'' ''snap-shot'' [ReadOk tickFrame] (decodeInto noFrame emptyMessage) =
     ([Tick, ReadJSON,
       BulkAdd \<lparr>reqIndex = ''gdax-market'', reqType = ''snap-shot'',
                reqDoc = decodeInto tickFrame (decodeInto noFrame emptyMessage)\<rparr>], Waiting)"
    using n by (simp add: loopBody_def Let_def)
  show ?thesis
    using t read_error_is_logged_and_loop_goes_on [of "''gdax-market''" "''snap-shot''"
        "''unexpected EOF''" noFrame emptyMessage "[ReadOk tickFrame]"]
    by (simp del: readLoop.simps)
qed

section \<open>The subscribe message\<close>

lemma sent_indexTicker_one: "sent (indexTicker indexName coin [e]) = [subscribe ''ticker'' coin]"
proof (cases e)
  case (Dialed w rs)
  then show ?thesis
    using sent_readLoop [of indexName "''ticker''" rs emptyMessage]
    by (cases "readLoop indexName ''ticker'' rs (emptyMessage :: 'a Message)")
       (auto simp: sent_append split: writeResult.splits loopEnd.splits)
next
  case (DialFailed err)
  then show ?thesis by simp
qed

lemma sent_indexOrderBook_one:
  "sent (indexOrderBook indexName coin [e]) = [subscribe ''level2'' coin]"
proof (cases e)
  case (Dialed w rs)
  then show ?thesis
    using sent_readLoop [of indexName "''snap-shot''" rs emptyMessage]
    by (cases "readLoop indexName ''snap-shot'' rs (emptyMessage :: 'a Message)")
       (auto simp: sent_append split: writeResult.splits loopEnd.splits)
next
  case (DialFailed err)
  then show ?thesis by simp
qed

lemma indexTicker_starts:
  "\<exists>pre post. indexTicker indexName coin (e # es) = pre @ WriteJSON (subscribe ''ticker'' coin) # post \<and>
     Dial wsURL \<in> set pre \<and> sent pre = []"
proof (cases e)
  case (Dialed w rs)
  show ?thesis
    unfolding Dialed by (rule exI [of _ "[Dial wsURL]"]) simp
next
  case (DialFailed err)
  show ?thesis
    unfolding DialFailed by (rule exI [of _ "[Dial wsURL, Log logStream Error err]"]) simp
qed

lemma indexOrderBook_starts:
  "\<exists>pre post. indexOrderBook indexName coin (e # es) = pre @ WriteJSON (subscribe ''level2'' coin) # post \<and>
     Dial wsURL \<in> set pre \<and> sent pre = []"
proof (cases e)
  case (Dialed w rs)
  show ?thesis
    unfolding Dialed by (rule exI [of _ "[Dial wsURL]"]) simp
next
  case (DialFailed err)
  show ?thesis
    unfolding DialFailed by (rule exI [of _ "[Dial wsURL, Log logStream Error err]"]) simp
qed

text \<open>
  C9. One run of a stream function calls \<^verbatim>\<open>WriteJSON\<close> exactly once, after the dial. The
  message has the type tag \<^verbatim>\<open>subscribe\<close> and one channel, named \<^verbatim>\<open>ticker\<close> in
  \<^verbatim>\<open>indexTicker\<close> and \<^verbatim>\<open>level2\<close> in \<^verbatim>\<open>indexOrderBook\<close>, whose only product id is the
  market the function was given.
\<close>

theorem one_subscribe_frame_per_start:
  "sent (indexTicker indexName coin [e]) =
     [\<lparr>Type = ''subscribe'', Channels = [\<lparr>Name = ''ticker'', ProductIds = [coin]\<rparr>],
       Time = 0, Other = (\<lambda>_. [])\<rparr>] \<and>
   (\<exists>pre post. indexTicker indexName coin [e] = pre @ WriteJSON (subscribe ''ticker'' coin) # post \<and>
      Dial wsURL \<in> set pre \<and> sent pre = []) \<and>
   sent (indexOrderBook indexName coin [e]) =
     [\<lparr>Type = ''subscribe'', Channels = [\<lparr>Name = ''level2'', ProductIds = [coin]\<rparr>],
       Time = 0, Other = (\<lambda>_. [])\<rparr>] \<and>
   (\<exists>pre post. indexOrderBook indexName coin [e] = pre @ WriteJSON (subscribe ''level2'' coin) # post \<and>
      Dial wsURL \<in> set pre \<and> sent pre = [])"
  using sent_indexTicker_one [of indexName coin e] sent_indexOrderBook_one [of indexName coin e]
    indexTicker_starts [of indexName coin e "[]"] indexOrderBook_starts [of indexName coin e "[]"]
  by (simp del: indexTicker.simps indexOrderBook.simps add: subscribe_def)

theorem one_subscribe_frame_per_start_witness:
  "map (\<lambda>m. (Type m, Channels m)) (sent (indexTicker ''gdax-market'' ''BTC-USD'' [steadyEnv])) =
     [(''subscribe'', [\<lparr>Name = ''ticker'', ProductIds = [''BTC-USD'']\<rparr>])] \<and>
   map (\<lambda>m. (Type m, Channels m)) (sent (indexOrderBook ''gdax-market'' ''BTC-USD'' [steadyEnv])) =
     [(''subscribe'', [\<lparr>Name = ''level2'', ProductIds = [''BTC-USD'']\<rparr>])]"
  using one_subscribe_frame_per_start [of "''gdax-market''" "''BTC-USD''" steadyEnv]
  by (simp del: indexTicker.simps indexOrderBook.simps)

section \<open>A message kept across reads\<close>

lemma envelopeAfter_append:
  "envelopeAfter (rs @ rs') m = envelopeAfter rs' (envelopeAfter rs m)"
  by (induction rs arbitrary: m) simp_all

lemma readLoop_append:
  "ReadPanic \<notin> set rs \<Longrightarrow>
   readLoop indexName docType (rs @ rs') m =
     (fst (readLoop indexName docType rs m) @
      fst (readLoop indexName docType rs' (envelopeAfter rs m)),
      snd (readLoop indexName docType rs' (envelopeAfter rs m)))"
proof (induction rs arbitrary: m)
  case Nil
  show ?case by simp
next
  case (Cons r rs)
  then show ?case
    by (cases r) (simp_all del: readLoop.simps add: readLoop_Cons)
qed

lemma fieldOf_decodeInto_missing:
  "\<not> hasField f k \<Longrightarrow> fieldOf (decodeInto f m) k = fieldOf m k"
  by (cases k) (simp_all add: decodeInto_def)

lemma fieldOf_decodeInto_value:
  "frameValue f k = Some v \<Longrightarrow> fieldOf (decodeInto f m) k = v"
  by (cases k) (auto simp: decodeInto_def split: option.splits if_splits)

lemma fieldOf_envelopeAfter_omits:
  "\<forall>r \<in> set rs. omitsField k r \<Longrightarrow> fieldOf (envelopeAfter rs m) k = fieldOf m k"
proof (induction rs arbitrary: m)
  case Nil
  show ?case by simp
next
  case (Cons r rs)
  then show ?case
    by (cases r) (simp_all add: omitsField_def fieldOf_decodeInto_missing)
qed

lemma omitsField_no_panic: "\<forall>r \<in> set rs. omitsField k r \<Longrightarrow> ReadPanic \<notin> set rs"
  by (auto simp: omitsField_def)

text \<open>
  C10. The loop decodes every frame into the same message and never resets it. When the
  frame of a read has a field, the reads after it leave the field out, and a later
  successful read leaves it out as well and yields a request, then the document of that
  request has the field as it stood after the earlier read; that is the value of the
  earlier frame where the frame gives one.
\<close>

theorem stale_field_is_carried_over:
  assumes "ReadPanic \<notin> set pre"
    and "frameOf r = Some g"
    and "hasField g k"
    and "\<forall>r' \<in> set mid. omitsField k r'"
    and "\<not> hasField f k"
    and "\<not> IsZero (decodeInto f (envelopeAfter (pre @ r # mid) m))"
  shows "\<exists>d. readLoop indexName docType (pre @ r # mid @ [ReadOk f]) m =
           (fst (readLoop indexName docType (pre @ r # mid) m) @
            [Tick, ReadJSON, BulkAdd \<lparr>reqIndex = indexName, reqType = docType, reqDoc = d\<rparr>],
            Waiting) \<and>
         fieldOf d k = fieldOf (envelopeAfter (pre @ [r]) m) k \<and>
         (\<forall>v. frameValue g k = Some v \<longrightarrow> fieldOf d k = v)"
proof -
  let ?before = "pre @ r # mid"
  let ?d = "decodeInto f (envelopeAfter ?before m)"
  have r: "r \<noteq> ReadPanic"
    using assms(2) by auto
  have np: "ReadPanic \<notin> set ?before"
    using assms(1) r omitsField_no_panic [OF assms(4)] by auto
  have l: "readLoop indexName docType (?before @ [ReadOk f]) m =
          (fst (readLoop indexName docType ?before m) @
           [Tick, ReadJSON, BulkAdd \<lparr>reqIndex = indexName, reqType = docType, reqDoc = ?d\<rparr>],
           Waiting)"
    using assms(6)
    by (simp only: readLoop_append [OF np, of indexName docType "[ReadOk f]" m] readLoop_ReadOk)
       simp
  have after: "envelopeAfter (pre @ [r]) m = decodeInto g (envelopeAfter pre m)"
    using assms(2) by (simp add: envelopeAfter_append)
  have "fieldOf ?d k = fieldOf (envelopeAfter ?before m) k"
    using assms(5) by (simp add: fieldOf_decodeInto_missing)
  also have "\<dots> = fieldOf (envelopeAfter mid (decodeInto g (envelopeAfter pre m))) k"
    using assms(2) by (simp add: envelopeAfter_append)
  also have "\<dots> = fieldOf (decodeInto g (envelopeAfter pre m)) k"
    by (rule fieldOf_envelopeAfter_omits [OF assms(4)])
  finally have c: "fieldOf ?d k = fieldOf (envelopeAfter (pre @ [r]) m) k"
    using after by simp
  have "\<forall>v. frameValue g k = Some v \<longrightarrow> fieldOf ?d k = v"
    using c after by (simp add: fieldOf_decodeInto_value)
  then show ?thesis
    using l c by (intro exI [of _ ?d]) simp
qed

theorem stale_field_is_carried_over_witness:
  "ReadPanic \<notin> set [ReadOk ackFrame] \<and>
   frameOf (ReadOk tickFrame) = Some tickFrame \<and>
   hasField tickFrame (OtherField PriceField) \<and>
   list_all (omitsField (OtherField PriceField)) [ReadErr ''unexpected EOF'' noFrame] \<and>
   \<not> hasField sizeFrame (OtherField PriceField) \<and>
   \<not> IsZero (decodeInto sizeFrame
        (envelopeAfter [ReadOk ackFrame, ReadOk tickFrame, ReadErr ''unexpected EOF'' noFrame]
           emptyMessage)) \<and>
   frameValue tickFrame (OtherField PriceField) = Some (StringValue ''13000.01'') \<and>
   (\<exists>d. readLoop ''gdax-market'' ''ticker''
           [ReadOk ackFrame, ReadOk tickFrame, ReadErr ''unexpected EOF'' noFrame, ReadOk sizeFrame]
           emptyMessage =
         (fst (readLoop ''gdax-market'' ''ticker''
                [ReadOk ackFrame, ReadOk tickFrame, ReadErr ''unexpected EOF'' noFrame]
                emptyMessage) @
          [Tick, ReadJSON,
           BulkAdd \<lparr>reqIndex = ''gdax-market'', reqType = ''ticker'', reqDoc = d\<rparr>], Waiting) \<and>
         fieldOf d (OtherField PriceField) = StringValue ''13000.01'')"
proof -
  have h1: "ReadPanic \<notin> set [ReadOk ackFrame]"
    by simp
  have h2: "frameOf (ReadOk tickFrame) = Some tickFrame"
    by simp
  have h3: "hasField tickFrame (OtherField PriceField)"
    by (simp add: tickFrame_def)
  have h4: "\<forall>r' \<in> set [ReadErr ''unexpected EOF'' noFrame]. omitsField (OtherField PriceField) r'"
    by (simp add: omitsField_def noFrame_def)
  have h5: "\<not> hasField sizeFrame (OtherField PriceField)"
    by (simp add: sizeFrame_def)
  have h6: "\<not> IsZero (decodeInto sizeFrame
      (envelopeAfter ([ReadOk ackFrame] @ ReadOk tickFrame # [ReadErr ''unexpected EOF'' noFrame])
         emptyMessage))"
    by (simp add: IsZero_def decodeInto_def sizeFrame_def noFrame_def tickFrame_def)
  have v: "frameValue tickFrame (OtherField PriceField) = Some (StringValue ''13000.01'')"
    by (simp add: tickFrame_def)
  show ?thesis
    using h2 h3 h4 h5 h6 v
      stale_field_is_carried_over [OF h1 h2 h3 h4 h5 h6, of "''gdax-market''" "''ticker''"]
    by (simp del: readLoop.simps) blast
qed

section \<open>A dial or a subscribe write that fails\<close>

lemma readAttempts_append: "readAttempts (xs @ ys) = readAttempts xs + readAttempts ys"
  by (induction xs rule: readAttempts.induct) simp_all

lemma readAttempts_readLoop:
  "readAttempts (fst (readLoop indexName docType rs m)) =
     length (processed rs) + (if ReadPanic \<in> set rs then 1 else 0)"
proof (induction rs arbitrary: m)
  case Nil
  show ?case by simp
next
  case (Cons r rs)
  show ?case
    by (cases r) (simp_all del: readLoop.simps add: readLoop_Cons Cons.IH readAttempts_append)
qed

lemma write_error_is_logged_and_loop_is_run:
  "\<exists>post.
     indexTicker indexName coin (Dialed (WriteErr err) rs # es) =
       [Dial wsURL, WriteJSON (subscribe ''ticker'' coin), Log logStream Error err, Go watcher,
        NewTicker tickerTime] @
       fst (readLoop indexName ''ticker'' rs emptyMessage) @ post"
  by (cases "readLoop indexName ''ticker'' rs (emptyMessage :: 'a Message)")
     (auto split: loopEnd.splits)

lemma failed_dial_never_reads:
  "readAttempts (indexTicker indexName coin [DialFailed err]) = 0 \<and>
   readAttempts (indexOrderBook indexName coin [DialFailed err]) = 0"
  by simp

text \<open>
  C7. After a failed dial the error is logged and the function goes on with the nil
  connection it got: the write of the subscribe message panics on it, the deferred calls
  run, and the run ends in its restart handler without a single read. An error of the
  write on a connection is logged and the loop is run, as the lemma above shows.
\<close>

theorem failed_dial_ends_the_run_without_a_read:
  "refusedEnv = DialFailed ''connection refused'' \<and>
   indexTicker ''gdax-market'' ''BTC-USD'' [refusedEnv] =
     [Dial wsURL, Log logStream Error ''connection refused'',
      WriteJSON (subscribe ''ticker'' ''BTC-USD''), ConnClose,
      Log logStream Error ''Ticker stream failed, waiting 10 seconds and restatrting'',
      Sleep 10, WgAdd 1] \<and>
   indexOrderBook ''gdax-market'' ''BTC-USD'' [refusedEnv] =
     [Dial wsURL, Log logStream Error ''connection refused'',
      WriteJSON (subscribe ''level2'' ''BTC-USD''), ConnClose,
      Log logStream Error ''Order book stream failed, waiting 10 seconds and restatrting'',
      Sleep 10, WgAdd 1] \<and>
   readAttempts (indexTicker ''gdax-market'' ''BTC-USD'' [refusedEnv]) = 0 \<and>
   readAttempts (indexOrderBook ''gdax-market'' ''BTC-USD'' [refusedEnv]) = 0"
  by (simp add: refusedEnv_def)

section \<open>Restarts\<close>

lemma sent_indexTicker:
  "m \<in> set (sent (indexTicker indexName coin es)) \<Longrightarrow> m = subscribe ''ticker'' coin"
proof (induction es arbitrary: indexName coin)
  case Nil
  then show ?case by simp
next
  case (Cons e es)
  show ?case
  proof (cases e)
    case (DialFailed err)
    then show ?thesis
      using Cons.prems Cons.IH [of indexName coin] by auto
  next
    case (Dialed w rs)
    obtain acts en where l: "readLoop indexName ''ticker'' rs (emptyMessage :: 'a Message) = (acts, en)"
      by (cases "readLoop indexName ''ticker'' rs (emptyMessage :: 'a Message)")
    have a: "sent acts = []"
      using sent_readLoop [of indexName "''ticker''" rs emptyMessage] l by simp
    show ?thesis
      using Cons.prems Cons.IH [of indexName coin] a l Dialed
      by (auto simp: sent_append split: writeResult.splits loopEnd.splits)
  qed
qed

lemma index_of_indexTicker:
  "r \<in> set (enqueued (indexTicker indexName coin es)) \<Longrightarrow> reqIndex r = indexName"
proof (induction es arbitrary: indexName coin)
  case Nil
  then show ?case by simp
next
  case (Cons e es)
  show ?case
  proof (cases e)
    case (DialFailed err)
    then show ?thesis
      using Cons.prems Cons.IH [of indexName coin] by auto
  next
    case (Dialed w rs)
    obtain acts en where l: "readLoop indexName ''ticker'' rs (emptyMessage :: 'a Message) = (acts, en)"
      by (cases "readLoop indexName ''ticker'' rs (emptyMessage :: 'a Message)")
    have a: "\<And>r. r \<in> set (enqueued acts) \<Longrightarrow> reqIndex r = indexName"
      using labels_readLoop [of _ indexName "''ticker''" rs emptyMessage] l by auto
    show ?thesis
      using Cons.prems Cons.IH [of indexName coin] a [of r] l Dialed
      by (auto simp: enqueued_append split: writeResult.splits loopEnd.splits)
  qed
qed

text \<open>
  C1. \<^verbatim>\<open>restartOrderBook\<close> calls \<^verbatim>\<open>indexOrderBook(ctx, coin, indexName, ...)\<close>: after a panic
  the order-book run that follows subscribes to the index name as its market and
  enqueues into the market as its index. The ticker keeps both, as the two lemmas above
  show for any number of restarts.
\<close>

theorem restarted_order_book_has_arguments_swapped:
  "sent (indexOrderBook ''gdax-market'' ''BTC-USD'' [panicEnv, steadyEnv]) =
     [subscribe ''level2'' ''BTC-USD'', subscribe ''level2'' ''gdax-market''] \<and>
   map reqIndex (enqueued (indexOrderBook ''gdax-market'' ''BTC-USD'' [panicEnv, steadyEnv])) =
     [''BTC-USD'', ''BTC-USD''] \<and>
   sent (indexTicker ''gdax-market'' ''BTC-USD'' [panicEnv, steadyEnv]) =
     [subscribe ''ticker'' ''BTC-USD'', subscribe ''ticker'' ''BTC-USD''] \<and>
   map reqIndex (enqueued (indexTicker ''gdax-market'' ''BTC-USD'' [panicEnv, steadyEnv])) =
     [''gdax-market'', ''gdax-market'']"
  by (simp add: panicEnv_def steadyEnv_def loopBody_def Let_def IsZero_def decodeInto_def
      emptyMessage_def ackFrame_def tickFrame_def noFrame_def sizeFrame_def)

section \<open>The wait group\<close>

lemma no_WgDone_in_readLoop: "WgDone \<notin> set (fst (readLoop indexName docType rs m))"
proof (induction rs arbitrary: m)
  case Nil
  show ?case by simp
next
  case (Cons r rs)
  show ?case
    by (cases r) (simp_all del: readLoop.simps add: readLoop_Cons Cons.IH)
qed

lemma no_WgDone_in_indexTicker: "WgDone \<notin> set (indexTicker indexName coin es)"
proof (induction es arbitrary: indexName coin)
  case Nil
  show ?case by simp
next
  case (Cons e es)
  show ?case
  proof (cases e)
    case (DialFailed err)
    then show ?thesis
      using Cons.IH [of indexName coin] by simp
  next
    case (Dialed w rs)
    obtain acts en where l: "readLoop indexName ''ticker'' rs (emptyMessage :: 'a Message) = (acts, en)"
      by (cases "readLoop indexName ''ticker'' rs (emptyMessage :: 'a Message)")
    have a: "WgDone \<notin> set acts"
      using no_WgDone_in_readLoop [of indexName "''ticker''" rs emptyMessage] l by simp
    show ?thesis
      using Cons.IH [of indexName coin] a l Dialed
      by (auto simp: watcher_def split: writeResult.splits loopEnd.splits)
  qed
qed

lemma no_WgDone_in_indexOrderBook: "WgDone \<notin> set (indexOrderBook indexName coin es)"
proof (induction es arbitrary: indexName coin)
  case Nil
  show ?case by simp
next
  case (Cons e es)
  show ?case
  proof (cases e)
    case (DialFailed err)
    then show ?thesis
      using Cons.IH [of coin indexName] by simp
  next
    case (Dialed w rs)
    obtain acts en where l: "readLoop indexName ''snap-shot'' rs (emptyMessage :: 'a Message) = (acts, en)"
      by (cases "readLoop indexName ''snap-shot'' rs (emptyMessage :: 'a Message)")
    have a: "WgDone \<notin> set acts"
      using no_WgDone_in_readLoop [of indexName "''snap-shot''" rs emptyMessage] l by simp
    show ?thesis
      using Cons.IH [of coin indexName] a l Dialed
      by (auto simp: watcher_def split: writeResult.splits loopEnd.splits)
  qed
qed

text \<open>
  C4. With one market, the counter is 4 when \<^verbatim>\<open>main\<close> has started everything: two shutdown
  goroutines and two stream functions. When the ticker's first run has panicked and
  \<^verbatim>\<open>restartTicker\<close> has added its entry, the counter is 5 and \<^verbatim>\<open>wg.Done()\<close> has not been
  called: the entry of the run that ended stays. Neither stream function calls
  \<^verbatim>\<open>wg.Done()\<close> at all.
\<close>

theorem panicked_run_keeps_its_entry:
  "wg (run launch (start sampleEnv)) = 4 \<and>
   wg (run restartRun (start sampleEnv)) = 5 \<and>
   wgCalls (trace (run restartRun (start sampleEnv))) = [1, 1, 1, 1, 1] \<and>
   wgCalls (indexTicker ''gdax-market'' ''BTC-USD'' [panicEnv, steadyEnv]) = [1] \<and>
   wgCalls (indexOrderBook ''gdax-market'' ''BTC-USD'' [panicEnv, steadyEnv]) = [1]"
  by code_simp

section \<open>The end of the process\<close>

text \<open>
  A flush that comes back without a response, once the bulk processor runs:
  \<^verbatim>\<open>elasticBulkProcessorFinished\<close> panics and the process crashes.
\<close>

lemma nil_response_crashes_the_process:
  "processor (run (replicate 6 RunMain) (start sampleEnv)) \<and>
   exited (run (replicate 6 RunMain @ [Flush None]) (start sampleEnv)) = Some Crashed"
  by code_simp

text \<open>
  C5. Every stream function starts a watcher that calls \<^verbatim>\<open>os.Exit(1)\<close> once the context
  is cancelled. In this run the order book has started its watcher, the interrupt
  arrives, \<^verbatim>\<open>main\<close> cancels, and the watcher ends the process with the counter of the wait
  group at 4, before \<^verbatim>\<open>main\<close> has got past \<^verbatim>\<open>wg.Wait()\<close>.
\<close>

theorem watcher_exits_before_count_is_zero:
  "Interrupt \<in> set abruptRun \<and>
   cancelled (run abruptRun (start sampleEnv)) \<and>
   exited (run abruptRun (start sampleEnv)) = Some (Exited 1) \<and>
   wg (run abruptRun (start sampleEnv)) = 4 \<and>
   length (mainThread (run abruptRun (start sampleEnv))) = 1"
proof -
  have "Interrupt \<in> set abruptRun"
    by (simp add: abruptRun_def interrupt_def)
  moreover have "cancelled (run abruptRun (start sampleEnv)) \<and>
      exited (run abruptRun (start sampleEnv)) = Some (Exited 1) \<and>
      wg (run abruptRun (start sampleEnv)) = 4 \<and>
      length (mainThread (run abruptRun (start sampleEnv))) = 1"
    by code_simp
  ultimately show ?thesis by simp
qed

lemma shutdown_in_set:
  "BulkClose \<in> set as \<or> ClientStop \<in> set as \<Longrightarrow> list_ex isShutdown as"
  by (metis isShutdown.simps(1,2) list_ex_iff)

text \<open>
  C6. In this run the order book has enqueued a request, the interrupt arrives, \<^verbatim>\<open>main\<close>
  cancels, and the watcher of the order book ends the process before either shutdown
  goroutine has run: neither \<^verbatim>\<open>elasticBulkProcessor.Close()\<close> nor \<^verbatim>\<open>elasticClient.Stop()\<close> has
  been called, and the request has not been flushed.
\<close>

theorem watcher_exits_before_final_flush:
  "cancelled (run unflushedRun (start sampleEnv)) \<and>
   exited (run unflushedRun (start sampleEnv)) = Some (Exited 1) \<and>
   map reqIndex (enqueued (trace (run unflushedRun (start sampleEnv)))) = [''gdax-market''] \<and>
   BulkClose \<notin> set (trace (run unflushedRun (start sampleEnv))) \<and>
   ClientStop \<notin> set (trace (run unflushedRun (start sampleEnv)))"
proof -
  have "\<not> list_ex isShutdown (trace (run unflushedRun (start sampleEnv)))"
    by code_simp
  then have "BulkClose \<notin> set (trace (run unflushedRun (start sampleEnv))) \<and>
      ClientStop \<notin> set (trace (run unflushedRun (start sampleEnv)))"
    using shutdown_in_set by blast
  moreover have "cancelled (run unflushedRun (start sampleEnv)) \<and>
      exited (run unflushedRun (start sampleEnv)) = Some (Exited 1) \<and>
      map reqIndex (enqueued (trace (run unflushedRun (start sampleEnv)))) = [''gdax-market'']"
    by code_simp
  ultimately show ?thesis by simp
qed

end
